theory Spec2Isabelle
  imports Complex_Main "HOL-Library.Word"
begin

section \<open>JavaScript strings\<close>

text \<open>
  A JavaScript string is a sequence of UTF-16 code units, and \<^verbatim>\<open>.length\<close> counts code
  units. The text fields of \<^verbatim>\<open>src/app/page.tsx\<close> are such strings.
\<close>

type_synonym code_unit = "16 word"
type_synonym js_string = "code_unit list"

definition ascii :: "string \<Rightarrow> js_string" where
  \<comment> \<open>an ASCII literal of the source as code units\<close>
  "ascii cs = map (\<lambda>c. of_nat (of_char c :: nat)) cs"

definition isWhiteSpace :: "code_unit \<Rightarrow> bool" where
  \<comment> \<open>ECMAScript WhiteSpace and LineTerminator: what \<^verbatim>\<open>String.prototype.trim\<close> strips.
     All of them lie in the basic plane, so one code unit each.\<close>
  "isWhiteSpace c =
     (c \<in> set [0x0009, 0x000A, 0x000B, 0x000C, 0x000D, 0x0020, 0x00A0, 0x1680,
                0x2028, 0x2029, 0x202F, 0x205F, 0x3000, 0xFEFF]
      \<or> (0x2000 \<le> c \<and> c \<le> 0x200A))"

definition trim :: "js_string \<Rightarrow> js_string" where
  "trim s = rev (dropWhile isWhiteSpace (rev (dropWhile isWhiteSpace s)))"

definition js_truthy :: "js_string \<Rightarrow> bool" where
  \<comment> \<open>ToBoolean on a string: only the empty string is falsy\<close>
  "js_truthy s = (length s > 0)"

definition js_or :: "js_string \<Rightarrow> js_string \<Rightarrow> js_string" where
  \<comment> \<open>\<^verbatim>\<open>a || b\<close> on strings\<close>
  "js_or a b = (if js_truthy a then a else b)"

fun js_join :: "js_string \<Rightarrow> js_string list \<Rightarrow> js_string" where
  \<comment> \<open>\<^verbatim>\<open>Array.prototype.join\<close> on an array of strings\<close>
  "js_join sep [] = []"
| "js_join sep [x] = x"
| "js_join sep (x # y # ys) = x @ sep @ js_join sep (y # ys)"

definition js_slice :: "int \<Rightarrow> int \<Rightarrow> 'a list \<Rightarrow> 'a list" where
  \<comment> \<open>\<^verbatim>\<open>Array.prototype.slice(start, end)\<close>: negative indices count from the end, both
     are clamped to the array\<close>
  "js_slice start end xs =
     (let len = int (length xs);
          k = (if start < 0 then max (len + start) 0 else min start len);
          final = (if end < 0 then max (len + end) 0 else min end len)
      in take (nat (final - k)) (drop (nat k) xs))"

definition math_round :: "rat \<Rightarrow> int" where
  \<comment> \<open>\<^verbatim>\<open>Math.round\<close>: the nearest integer, a tie going up. The argument in
     \<^verbatim>\<open>progress\<close> is \<^verbatim>\<open>(filled / 4) * 100\<close> with \<^verbatim>\<open>filled\<close> in 0..4: quarters and their
     multiples by 100 are exact in IEEE doubles, so the rational value is the double.\<close>
  "math_round x = \<lfloor>x + 1 / 2\<rfloor>"

section \<open>Data model\<close>

datatype StepKey = Question | Background | Goal | Constraints

datatype Tone = Positive | Warning

record Insight =
  title :: js_string
  description :: js_string
  tone :: Tone

text \<open>The seven \<^verbatim>\<open>useState\<close> cells of the component \<^verbatim>\<open>Home\<close>.\<close>

record FormState =
  stage :: StepKey
  question :: js_string
  background :: js_string
  goal :: js_string
  constraints :: js_string
  "keywords" :: "js_string list"
  copied :: bool

definition initialState :: FormState where
  "initialState = \<lparr> stage = Question, question = [], background = [], goal = [],
     constraints = [], keywords = [], copied = False \<rparr>"

definition positivePhrases :: "js_string list" where
  "positivePhrases = [ascii ''Great clarity!'', ascii ''Solid context!'',
     ascii ''Thoughtful goal!'', ascii ''Nice constraints!'']"

definition warningPhrases :: "js_string list" where
  "warningPhrases = [ascii ''Could use more detail.'', ascii ''Think about edge cases.'',
     ascii ''Consider scope & timing.'', ascii ''Clarify who is impacted.'']"

section \<open>Derived values\<close>

subsection \<open>progress\<close>

definition progress :: "FormState \<Rightarrow> int" where
  "progress s =
     (let entries = [question s, background s, goal s, constraints s];
          filled = length (filter (\<lambda>field. length (trim field) > 0) entries)
      in math_round ((of_nat filled / of_nat (length entries)) * 100))"

definition filledCount :: "FormState \<Rightarrow> nat" where
  \<comment> \<open>the specification's count: fields whose trimmed length is greater than zero\<close>
  "filledCount s =
     (if length (trim (question s)) > 0 then 1 else 0) +
     (if length (trim (background s)) > 0 then 1 else 0) +
     (if length (trim (goal s)) > 0 then 1 else 0) +
     (if length (trim (constraints s)) > 0 then 1 else 0)"

subsection \<open>insights\<close>

definition addInsight :: "Insight list \<Rightarrow> Insight \<Rightarrow> Insight list" where
  \<comment> \<open>\<^verbatim>\<open>insightsList.push(params)\<close>, the list passed explicitly\<close>
  "addInsight insightsList params = insightsList @ [params]"

definition insights :: "FormState \<Rightarrow> Insight list" where
  "insights s =
     (let insightsList = [];
          insightsList =
            (if length (trim (question s)) > 10
             then addInsight insightsList
               \<lparr> title = positivePhrases ! 0,
                 description = ascii ''Your question has enough detail to start digging in.'',
                 tone = Positive \<rparr>
             else addInsight insightsList
               \<lparr> title = warningPhrases ! 0,
                 description = ascii ''Expand the core question with specifics. Try starting with who, what, when, where, why, or how.'',
                 tone = Warning \<rparr>);
          insightsList =
            (if length (trim (background s)) > 20
             then addInsight insightsList
               \<lparr> title = positivePhrases ! 1,
                 description = ascii ''Solid background info makes it easier to deliver a precise answer.'',
                 tone = Positive \<rparr>
             else addInsight insightsList
               \<lparr> title = warningPhrases ! 1,
                 description = ascii ''Add dependencies, teammates, or previous attempts so others can avoid redundant suggestions.'',
                 tone = Warning \<rparr>);
          insightsList =
            (if length (trim (goal s)) > 10
             then addInsight insightsList
               \<lparr> title = positivePhrases ! 2,
                 description = ascii ''Defining success helps others tailor advice to your expectations.'',
                 tone = Positive \<rparr>
             else addInsight insightsList
               \<lparr> title = warningPhrases ! 2,
                 description = ascii ''Think about the impact you want. Are you looking for a decision, a workaround, or validation?'',
                 tone = Warning \<rparr>);
          insightsList =
            (if length (trim (constraints s)) > 5
             then addInsight insightsList
               \<lparr> title = positivePhrases ! 3,
                 description = ascii ''Knowing constraints early reduces back-and-forth clarifications.'',
                 tone = Positive \<rparr>
             else addInsight insightsList
               \<lparr> title = warningPhrases ! 3,
                 description = ascii ''Call out time limits, resources, or approvals you need. It sets expectations for possible answers.'',
                 tone = Warning \<rparr>)
      in insightsList)"

definition thresholdTone :: "js_string \<Rightarrow> nat \<Rightarrow> Tone" where
  \<comment> \<open>the specification's rule: positive when the trimmed length strictly exceeds the
     threshold, warning otherwise\<close>
  "thresholdTone field threshold =
     (if length (trim field) > threshold then Positive else Warning)"

subsection \<open>recommendedPrompts\<close>

definition push :: "'a list \<Rightarrow> 'a list \<Rightarrow> 'a list" where
  \<comment> \<open>\<^verbatim>\<open>prompts.push(a, b, ...)\<close>: the arguments are appended in order\<close>
  "push arr items = arr @ items"

definition recommendedPrompts :: "FormState \<Rightarrow> js_string list" where
  "recommendedPrompts s =
     (let prompts = [];
          prompts =
            (if length (question s) > 0
             then push prompts
               [ascii ''What would solving this unlock for you or your team?'',
                ascii ''Who needs to sign off once you have an answer?'']
             else prompts);
          prompts =
            (if \<not> js_truthy (background s)
             then push prompts [ascii ''What have you already tried or considered?'']
             else prompts);
          prompts =
            (if \<not> js_truthy (goal s)
             then push prompts [ascii ''How will you know you're done?'']
             else prompts);
          prompts =
            (if \<not> js_truthy (constraints s)
             then push prompts [ascii ''Are there deadlines or tools that limit your options?'']
             else prompts)
      in js_slice 0 4 prompts)"

subsection \<open>formattedSummary\<close>

definition emDash :: js_string where
  "emDash = [0x2014]"

definition brain :: js_string where
  \<comment> \<open>U+1F9E0 as a surrogate pair\<close>
  "brain = [0xD83E, 0xDDE0]"

definition books :: js_string where
  \<comment> \<open>U+1F4DA\<close>
  "books = [0xD83D, 0xDCDA]"

definition target :: js_string where
  \<comment> \<open>U+1F3AF\<close>
  "target = [0xD83C, 0xDFAF]"

definition stopwatch :: js_string where
  \<comment> \<open>U+23F1 U+FE0F\<close>
  "stopwatch = [0x23F1, 0xFE0F]"

definition label :: js_string where
  \<comment> \<open>U+1F3F7 U+FE0F\<close>
  "label = [0xD83C, 0xDFF7, 0xFE0F]"

definition filterBoolean :: "js_string option list \<Rightarrow> js_string list" where
  \<comment> \<open>\<^verbatim>\<open>.filter(Boolean)\<close> on an array of strings and \<^verbatim>\<open>undefined\<close> (here \<open>None\<close>):
     \<^verbatim>\<open>undefined\<close> and the empty string are falsy\<close>
  "filterBoolean xs =
     concat (map (\<lambda>x. case x of None \<Rightarrow> [] | Some l \<Rightarrow> (if js_truthy l then [l] else [])) xs)"

definition formattedSummary :: "FormState \<Rightarrow> js_string" where
  "formattedSummary s =
     (let lines = filterBoolean
            [Some (brain @ ascii '' Question: '' @ js_or (question s) emDash),
             Some (books @ ascii '' Background: '' @ js_or (background s) emDash),
             Some (target @ ascii '' Desired outcome: '' @ js_or (goal s) emDash),
             Some (stopwatch @ ascii '' Constraints: '' @ js_or (constraints s) emDash),
             (if length (keywords s) > 0
              then Some (label @ ascii '' Keywords: '' @ js_join (ascii '', '') (keywords s))
              else None)]
      in js_join (ascii [CHR 0x0A]) lines)"

definition fieldOrDash :: "js_string \<Rightarrow> js_string" where
  \<comment> \<open>the specification's substitution: a field of raw length zero is shown as the
     em-dash\<close>
  "fieldOrDash field = (if length field = 0 then emDash else field)"

definition summaryLines :: "FormState \<Rightarrow> js_string list" where
  \<comment> \<open>the specification's lines: four field lines, then the keyword line when there are
     keywords\<close>
  "summaryLines s =
     [brain @ ascii '' Question: '' @ fieldOrDash (question s),
      books @ ascii '' Background: '' @ fieldOrDash (background s),
      target @ ascii '' Desired outcome: '' @ fieldOrDash (goal s),
      stopwatch @ ascii '' Constraints: '' @ fieldOrDash (constraints s)]
     @ (if keywords s = [] then []
        else [label @ ascii '' Keywords: '' @ js_join (ascii '', '') (keywords s)])"

definition promptRules :: "FormState \<Rightarrow> js_string list" where
  \<comment> \<open>the specification's four rules, in order, on raw lengths\<close>
  "promptRules s =
     (if length (question s) > 0
      then [ascii ''What would solving this unlock for you or your team?'',
            ascii ''Who needs to sign off once you have an answer?'']
      else [])
     @ (if length (background s) = 0
        then [ascii ''What have you already tried or considered?''] else [])
     @ (if length (goal s) = 0
        then [ascii ''How will you know you're done?''] else [])
     @ (if length (constraints s) = 0
        then [ascii ''Are there deadlines or tools that limit your options?''] else [])"

section \<open>Mutators\<close>

definition toggleKeyword :: "js_string \<Rightarrow> FormState \<Rightarrow> FormState" where
  \<comment> \<open>\<^verbatim>\<open>setKeywords((prev) => prev.includes(keyword) ? prev.filter(...) : [...prev, keyword])\<close>\<close>
  "toggleKeyword keyword s =
     s\<lparr> keywords :=
          (let prev = keywords s
           in if keyword \<in> set prev
              then filter (\<lambda>item. item \<noteq> keyword) prev
              else prev @ [keyword]) \<rparr>"

text \<open>
  The component in its environment: the clock in milliseconds, the due times of the
  pending \<^verbatim>\<open>setTimeout(() => setCopied(false), 2400)\<close> callbacks, the texts of the
  clipboard writes that were requested and have not settled yet, the clipboard and the
  \<^verbatim>\<open>console.error\<close> log (message and error).
\<close>

record Runtime =
  form :: FormState
  now :: nat
  timers :: "nat list"
  inFlight :: "js_string list"
  clipboard :: js_string
  console :: "(js_string \<times> js_string) list"

definition initialRuntime :: Runtime where
  "initialRuntime = \<lparr> form = initialState, now = 0, timers = [], inFlight = [],
     clipboard = [], console = [] \<rparr>"

datatype ClipboardResult = Written | Rejected js_string

definition writeText :: "ClipboardResult \<Rightarrow> js_string \<Rightarrow> Runtime \<Rightarrow> js_string + Runtime" where
  \<comment> \<open>\<^verbatim>\<open>await navigator.clipboard.writeText(text)\<close>: the outcome is the environment's; a
     rejection (or a missing clipboard) throws at the \<^verbatim>\<open>await\<close>\<close>
  "writeText res text r =
     (case res of Written \<Rightarrow> Inr (r\<lparr> clipboard := text \<rparr>) | Rejected error \<Rightarrow> Inl error)"

definition setCopied :: "bool \<Rightarrow> Runtime \<Rightarrow> Runtime" where
  "setCopied v r = r\<lparr> form := (form r)\<lparr> copied := v \<rparr> \<rparr>"

definition setTimeout :: "nat \<Rightarrow> Runtime \<Rightarrow> Runtime" where
  \<comment> \<open>a new timer, due \<open>delay\<close> ms from now; the ones already pending stay\<close>
  "setTimeout delay r = r\<lparr> timers := timers r @ [now r + delay] \<rparr>"

definition consoleError :: "js_string \<Rightarrow> js_string \<Rightarrow> Runtime \<Rightarrow> Runtime" where
  "consoleError msg error r = r\<lparr> console := console r @ [(msg, error)] \<rparr>"

definition requestCopy :: "Runtime \<Rightarrow> Runtime" where
  \<comment> \<open>the click: \<^verbatim>\<open>handleCopy\<close> runs up to the \<^verbatim>\<open>await\<close>, asking for a write of
     \<^verbatim>\<open>formattedSummary\<close> as it is at the click\<close>
  "requestCopy r = r\<lparr> inFlight := inFlight r @ [formattedSummary (form r)] \<rparr>"

definition handleCopy :: "js_string \<Rightarrow> ClipboardResult \<Rightarrow> Runtime \<Rightarrow> js_string + Runtime" where
  \<comment> \<open>\<^verbatim>\<open>handleCopy\<close> from the \<^verbatim>\<open>await\<close> on: \<open>summary\<close> is the text captured at the click,
     \<open>res\<close> how the write settles and \<open>r\<close> the state at that moment. \<open>Inl\<close> is an
     exception leaving \<^verbatim>\<open>handleCopy\<close>. The body of the \<^verbatim>\<open>try\<close> runs to its end or throws
     at the \<^verbatim>\<open>await\<close>; the \<^verbatim>\<open>catch\<close> logs what was thrown.\<close>
  "handleCopy summary res r =
     (case (case writeText res summary r of
              Inl error \<Rightarrow> Inl error
            | Inr r1 \<Rightarrow> Inr (setTimeout 2400 (setCopied True r1))) of
        Inr r2 \<Rightarrow> Inr r2
      | Inl error \<Rightarrow> Inr (consoleError (ascii ''Failed to copy summary'') error r))"

definition settleCopy :: "nat \<Rightarrow> ClipboardResult \<Rightarrow> Runtime \<Rightarrow> Runtime" where
  \<comment> \<open>the \<open>i\<close>-th write in flight settles and its \<^verbatim>\<open>handleCopy\<close> resumes; an exception
     leaving it would change nothing\<close>
  "settleCopy i res r =
     (if i < length (inFlight r)
      then (case handleCopy (inFlight r ! i) res
                   (r\<lparr> inFlight := take i (inFlight r) @ drop (Suc i) (inFlight r) \<rparr>) of
              Inr r' \<Rightarrow> r'
            | Inl error \<Rightarrow> r)
      else r)"

definition elapse :: "nat \<Rightarrow> Runtime \<Rightarrow> Runtime" where
  \<comment> \<open>\<open>dt\<close> ms pass: every timer that has come due runs its callback
     \<^verbatim>\<open>setCopied(false)\<close> and is gone\<close>
  "elapse dt r =
     (let t = now r + dt;
          due = filter (\<lambda>d. d \<le> t) (timers r);
          pending = filter (\<lambda>d. \<not> d \<le> t) (timers r)
      in fold (\<lambda>d. setCopied False) due (r\<lparr> now := t, timers := pending \<rparr>))"

datatype Event =
    SetQuestion js_string
  | SetBackground js_string
  | SetGoal js_string
  | SetConstraints js_string
  | SetStage StepKey
  | ToggleKeyword js_string
  | CopyClick
  | CopySettle nat ClipboardResult
  | Elapse nat

fun step :: "Event \<Rightarrow> Runtime \<Rightarrow> Runtime" where
  "step (SetQuestion v) r = r\<lparr> form := (form r)\<lparr> question := v \<rparr> \<rparr>"
| "step (SetBackground v) r = r\<lparr> form := (form r)\<lparr> background := v \<rparr> \<rparr>"
| "step (SetGoal v) r = r\<lparr> form := (form r)\<lparr> goal := v \<rparr> \<rparr>"
| "step (SetConstraints v) r = r\<lparr> form := (form r)\<lparr> constraints := v \<rparr> \<rparr>"
| "step (SetStage k) r = r\<lparr> form := (form r)\<lparr> stage := k \<rparr> \<rparr>"
| "step (ToggleKeyword k) r = r\<lparr> form := toggleKeyword k (form r) \<rparr>"
| "step CopyClick r = requestCopy r"
| "step (CopySettle i res) r = settleCopy i res r"
| "step (Elapse dt) r = elapse dt r"

definition run :: "Event list \<Rightarrow> Runtime \<Rightarrow> Runtime" where
  "run es r = fold step es r"

inductive reachable :: "Runtime \<Rightarrow> bool" where
  init: "reachable initialRuntime"
| next_event: "reachable r \<Longrightarrow> reachable (step e r)"

section \<open>States used as examples\<close>

definition boundaryState :: FormState where
  "boundaryState = \<lparr> stage = Goal, question = ascii ''  Why is it? '',
     background = ascii ''We tried caching it.'',
     goal = [0x3000] @ ascii ''Ship by Q3'' @ [0x2003],
     constraints = ascii ''No db'', keywords = [], copied = False \<rparr>"

definition blankState :: FormState where
  "blankState = \<lparr> stage = Question, question = [0x20, 0x20], background = [0x20, 0x09],
     goal = [0x0A], constraints = [0xA0, 0x3000], keywords = [], copied = False \<rparr>"

definition questionOnly :: FormState where
  "questionOnly = \<lparr> stage = Question, question = ascii ''Why is latency high?'',
     background = [], goal = [], constraints = [], keywords = [], copied = False \<rparr>"

definition tagEvents :: "Event list" where
  "tagEvents = [ToggleKeyword (ascii ''frontend''), ToggleKeyword (ascii ''product''),
     SetQuestion (ascii ''Why is latency high?''), CopyClick,
     CopySettle 0 Written, ToggleKeyword (ascii ''frontend'')]"

definition taggedState :: FormState where
  "taggedState = initialState \<lparr> keywords := [ascii ''frontend'', ascii ''product''] \<rparr>"

definition copyDenied :: js_string where
  "copyDenied = ascii ''NotAllowedError''"

definition twoCopies :: "Event list" where
  "twoCopies = [CopyClick, CopySettle 0 Written, Elapse 1000, CopyClick, CopySettle 0 Written]"

definition afterCopy :: Runtime where
  "afterCopy = initialRuntime \<lparr> form := initialState \<lparr> copied := True \<rparr>, timers := [2400],
     clipboard := formattedSummary initialState \<rparr>"

definition secondClick :: Runtime where
  \<comment> \<open>1000 ms after the first copy\<close>
  "secondClick = afterCopy \<lparr> now := 1000 \<rparr>"

definition afterSecondCopy :: Runtime where
  "afterSecondCopy = secondClick \<lparr> timers := [2400, 3400] \<rparr>"

section \<open>The progress score\<close>

lemma math_round_of_int: "math_round (of_int z) = z"
  unfolding math_round_def by linarith

lemma math_round_quarters:
  "math_round (of_nat n / of_nat 4 * 100) = 25 * int n"
proof -
  have "(of_nat n / of_nat 4 * 100 :: rat) = of_int (25 * int n)"
    by simp
  then show ?thesis
    by (simp only: math_round_of_int)
qed

text \<open>
  C1. For every form state the progress score is round(count / 4 * 100), where count is
  the number of the four fields whose trimmed length is greater than zero; that is
  25 times the count, and so one of 0, 25, 50, 75, 100.
\<close>

theorem progress_quarters:
  "progress s = math_round (of_nat (filledCount s) / 4 * 100)
   \<and> progress s = 25 * int (filledCount s)
   \<and> progress s \<in> {0, 25, 50, 75, 100}"
proof -
  have len: "length (filter (\<lambda>field. length (trim field) > 0)
               [question s, background s, goal s, constraints s]) = filledCount s"
    by (simp add: filledCount_def)
  have p: "progress s = math_round (of_nat (filledCount s) / of_nat 4 * 100)"
    unfolding progress_def Let_def len by simp
  have q: "progress s = 25 * int (filledCount s)"
    unfolding p by (rule math_round_quarters)
  have "filledCount s \<le> 4"
    by (simp add: filledCount_def)
  then have "filledCount s \<in> {0, 1, 2, 3, 4}"
    by auto
  then have r: "progress s \<in> {0, 25, 50, 75, 100}"
    unfolding q by auto
  from p q r show ?thesis by simp
qed

section \<open>Insights\<close>

lemma if_append_single:
  "(if c then xs @ [a] else xs @ [b]) = xs @ [if c then a else b]"
  by simp

lemma if_single: "(if c then [a] else [b]) = [if c then a else b]"
  by simp

lemma insights_length: "length (insights s) = 4"
  by (simp add: insights_def Let_def addInsight_def if_append_single if_single
      split del: if_split cong: if_cong)

lemma insights_tones:
  "map tone (insights s) =
     [thresholdTone (question s) 10, thresholdTone (background s) 20,
      thresholdTone (goal s) 10, thresholdTone (constraints s) 5]"
  by (simp add: insights_def Let_def addInsight_def thresholdTone_def if_append_single
      if_single if_distrib [of tone] split del: if_split cong: if_cong)

lemma insights_titles:
  "map title (insights s) =
     [if length (trim (question s)) > 10 then ascii ''Great clarity!''
      else ascii ''Could use more detail.'',
      if length (trim (background s)) > 20 then ascii ''Solid context!''
      else ascii ''Think about edge cases.'',
      if length (trim (goal s)) > 10 then ascii ''Thoughtful goal!''
      else ascii ''Consider scope & timing.'',
      if length (trim (constraints s)) > 5 then ascii ''Nice constraints!''
      else ascii ''Clarify who is impacted.'']"
  by (simp add: insights_def Let_def addInsight_def positivePhrases_def warningPhrases_def
      if_append_single if_single if_distrib [of title] split del: if_split cong: if_cong)

lemma insights_nth_tone:
  "i < 4 \<Longrightarrow> tone (insights s ! i) = map tone (insights s) ! i"
  by (simp add: insights_length)

text \<open>
  C2. The insights list always has exactly 4 entries, in the order question, background,
  goal, constraints. The tone of each is positive exactly when the trimmed length of its
  field strictly exceeds the threshold (10, 20, 10, 5) and warning otherwise, the title
  following the tone; a trimmed length equal to the threshold gives warning.
\<close>

theorem insights_thresholds:
  "length (insights s) = 4
   \<and> map tone (insights s) =
       [thresholdTone (question s) 10, thresholdTone (background s) 20,
        thresholdTone (goal s) 10, thresholdTone (constraints s) 5]
   \<and> map title (insights s) =
       [if length (trim (question s)) > 10 then ascii ''Great clarity!''
        else ascii ''Could use more detail.'',
        if length (trim (background s)) > 20 then ascii ''Solid context!''
        else ascii ''Think about edge cases.'',
        if length (trim (goal s)) > 10 then ascii ''Thoughtful goal!''
        else ascii ''Consider scope & timing.'',
        if length (trim (constraints s)) > 5 then ascii ''Nice constraints!''
        else ascii ''Clarify who is impacted.'']
   \<and> (length (trim (question s)) = 10 \<longrightarrow> tone (insights s ! 0) = Warning)
   \<and> (length (trim (background s)) = 20 \<longrightarrow> tone (insights s ! 1) = Warning)
   \<and> (length (trim (goal s)) = 10 \<longrightarrow> tone (insights s ! 2) = Warning)
   \<and> (length (trim (constraints s)) = 5 \<longrightarrow> tone (insights s ! 3) = Warning)"
proof -
  have n: "\<And>i. i < 4 \<Longrightarrow> tone (insights s ! i) = map tone (insights s) ! i"
    by (rule insights_nth_tone)
  have b: "(length (trim (question s)) = 10 \<longrightarrow> tone (insights s ! 0) = Warning)"
    "(length (trim (background s)) = 20 \<longrightarrow> tone (insights s ! 1) = Warning)"
    "(length (trim (goal s)) = 10 \<longrightarrow> tone (insights s ! 2) = Warning)"
    "(length (trim (constraints s)) = 5 \<longrightarrow> tone (insights s ! 3) = Warning)"
    by (simp_all add: n insights_tones thresholdTone_def)
  from insights_length insights_tones insights_titles b show ?thesis
    by blast
qed

theorem insights_thresholds_witness:
  "length (trim (question boundaryState)) = 10 \<and> tone (insights boundaryState ! 0) = Warning
   \<and> length (trim (background boundaryState)) = 20 \<and> tone (insights boundaryState ! 1) = Warning
   \<and> length (trim (goal boundaryState)) = 10 \<and> tone (insights boundaryState ! 2) = Warning
   \<and> length (trim (constraints boundaryState)) = 5 \<and> tone (insights boundaryState ! 3) = Warning"
proof -
  have q: "length (trim (question boundaryState)) = 10"
    by (simp add: boundaryState_def trim_def ascii_def isWhiteSpace_def)
  have b: "length (trim (background boundaryState)) = 20"
    by (simp add: boundaryState_def trim_def ascii_def isWhiteSpace_def)
  have g: "length (trim (goal boundaryState)) = 10"
    by (simp add: boundaryState_def trim_def ascii_def isWhiteSpace_def)
  have c: "length (trim (constraints boundaryState)) = 5"
    by (simp add: boundaryState_def trim_def ascii_def isWhiteSpace_def)
  from insights_thresholds [of boundaryState] q b g c show ?thesis
    by blast
qed

section \<open>Recommended prompts\<close>

lemma js_slice_0_4: "js_slice 0 4 xs = take 4 xs"
  by (simp add: js_slice_def Let_def min_def)

lemma if_append_opt: "(if c then xs @ ys else xs) = xs @ (if c then ys else [])"
  by simp

lemma recommendedPrompts_slice: "recommendedPrompts s = js_slice 0 4 (promptRules s)"
  by (simp add: recommendedPrompts_def promptRules_def Let_def push_def js_truthy_def
      if_append_opt split del: if_split cong: if_cong)

lemma recommendedPrompts_rules: "recommendedPrompts s = take 4 (promptRules s)"
  by (simp only: recommendedPrompts_slice js_slice_0_4)

lemma dropWhile_all: "list_all P xs \<Longrightarrow> dropWhile P xs = []"
  by (induction xs) auto

lemma trim_whitespace_only: "list_all isWhiteSpace field \<Longrightarrow> trim field = []"
  by (simp add: trim_def dropWhile_all)

lemma prompts_neq:
  "ascii ''What would solving this unlock for you or your team?'' \<noteq> ascii ''Who needs to sign off once you have an answer?''"
  "ascii ''What would solving this unlock for you or your team?'' \<noteq> ascii ''What have you already tried or considered?''"
  "ascii ''What would solving this unlock for you or your team?'' \<noteq> ascii ''How will you know you're done?''"
  "ascii ''What would solving this unlock for you or your team?'' \<noteq> ascii ''Are there deadlines or tools that limit your options?''"
  "ascii ''Who needs to sign off once you have an answer?'' \<noteq> ascii ''What would solving this unlock for you or your team?''"
  "ascii ''Who needs to sign off once you have an answer?'' \<noteq> ascii ''What have you already tried or considered?''"
  "ascii ''Who needs to sign off once you have an answer?'' \<noteq> ascii ''How will you know you're done?''"
  "ascii ''Who needs to sign off once you have an answer?'' \<noteq> ascii ''Are there deadlines or tools that limit your options?''"
  "ascii ''What have you already tried or considered?'' \<noteq> ascii ''What would solving this unlock for you or your team?''"
  "ascii ''What have you already tried or considered?'' \<noteq> ascii ''Who needs to sign off once you have an answer?''"
  "ascii ''What have you already tried or considered?'' \<noteq> ascii ''How will you know you're done?''"
  "ascii ''What have you already tried or considered?'' \<noteq> ascii ''Are there deadlines or tools that limit your options?''"
  "ascii ''How will you know you're done?'' \<noteq> ascii ''What would solving this unlock for you or your team?''"
  "ascii ''How will you know you're done?'' \<noteq> ascii ''Who needs to sign off once you have an answer?''"
  "ascii ''How will you know you're done?'' \<noteq> ascii ''What have you already tried or considered?''"
  "ascii ''How will you know you're done?'' \<noteq> ascii ''Are there deadlines or tools that limit your options?''"
  "ascii ''Are there deadlines or tools that limit your options?'' \<noteq> ascii ''What would solving this unlock for you or your team?''"
  "ascii ''Are there deadlines or tools that limit your options?'' \<noteq> ascii ''Who needs to sign off once you have an answer?''"
  "ascii ''Are there deadlines or tools that limit your options?'' \<noteq> ascii ''What have you already tried or considered?''"
  "ascii ''Are there deadlines or tools that limit your options?'' \<noteq> ascii ''How will you know you're done?''"
  by (simp_all add: ascii_def)

lemma promptRules_background:
  "background s \<noteq> [] \<Longrightarrow>
   ascii ''What have you already tried or considered?'' \<notin> set (promptRules s)"
  by (simp add: promptRules_def prompts_neq)

lemma promptRules_goal:
  "goal s \<noteq> [] \<Longrightarrow> ascii ''How will you know you're done?'' \<notin> set (promptRules s)"
  by (simp add: promptRules_def prompts_neq)

lemma promptRules_constraints:
  "constraints s \<noteq> [] \<Longrightarrow>
   ascii ''Are there deadlines or tools that limit your options?'' \<notin> set (promptRules s)"
  by (simp add: promptRules_def prompts_neq)

lemma promptRules_question:
  "question s \<noteq> [] \<Longrightarrow>
   take 2 (promptRules s) =
     [ascii ''What would solving this unlock for you or your team?'',
      ascii ''Who needs to sign off once you have an answer?'']"
  by (simp add: promptRules_def)

lemma promptRules_Nil:
  "(promptRules s = []) =
   (question s = [] \<and> background s \<noteq> [] \<and> goal s \<noteq> [] \<and> constraints s \<noteq> [])"
  by (simp add: promptRules_def)

text \<open>
  C3. recommendedPrompts is the list the four rules build in their fixed order, cut to
  its first 4 entries, so it never has more than 4. The rules test the raw length: a
  field of white space only counts as filled for them (the question rule fires, the
  other three do not), while its trimmed length, which the insights use, is zero.
\<close>

theorem recommendedPrompts_truncated_rules:
  "recommendedPrompts s = take 4 (promptRules s)
   \<and> length (recommendedPrompts s) \<le> 4
   \<and> (question s \<noteq> [] \<and> list_all isWhiteSpace (question s) \<longrightarrow>
        take 2 (recommendedPrompts s) =
          [ascii ''What would solving this unlock for you or your team?'',
           ascii ''Who needs to sign off once you have an answer?'']
        \<and> length (trim (question s)) = 0)
   \<and> (background s \<noteq> [] \<and> list_all isWhiteSpace (background s) \<longrightarrow>
        ascii ''What have you already tried or considered?'' \<notin> set (recommendedPrompts s)
        \<and> length (trim (background s)) = 0)
   \<and> (goal s \<noteq> [] \<and> list_all isWhiteSpace (goal s) \<longrightarrow>
        ascii ''How will you know you're done?'' \<notin> set (recommendedPrompts s)
        \<and> length (trim (goal s)) = 0)
   \<and> (constraints s \<noteq> [] \<and> list_all isWhiteSpace (constraints s) \<longrightarrow>
        ascii ''Are there deadlines or tools that limit your options?''
          \<notin> set (recommendedPrompts s)
        \<and> length (trim (constraints s)) = 0)"
proof -
  have r: "recommendedPrompts s = take 4 (promptRules s)"
    by (rule recommendedPrompts_rules)
  have l: "length (recommendedPrompts s) \<le> 4"
    unfolding r by simp
  have sub: "\<And>p. p \<notin> set (promptRules s) \<Longrightarrow> p \<notin> set (recommendedPrompts s)"
    unfolding r by (blast dest: in_set_takeD)
  from r l sub show ?thesis
    by (simp add: promptRules_background promptRules_goal promptRules_constraints
        promptRules_question trim_whitespace_only)
qed

theorem recommendedPrompts_truncated_rules_witness:
  "question blankState \<noteq> [] \<and> list_all isWhiteSpace (question blankState)
   \<and> background blankState \<noteq> [] \<and> list_all isWhiteSpace (background blankState)
   \<and> goal blankState \<noteq> [] \<and> list_all isWhiteSpace (goal blankState)
   \<and> constraints blankState \<noteq> [] \<and> list_all isWhiteSpace (constraints blankState)
   \<and> take 2 (recommendedPrompts blankState) =
          [ascii ''What would solving this unlock for you or your team?'',
           ascii ''Who needs to sign off once you have an answer?'']
   \<and> ascii ''What have you already tried or considered?'' \<notin> set (recommendedPrompts blankState)
   \<and> ascii ''How will you know you're done?'' \<notin> set (recommendedPrompts blankState)
   \<and> ascii ''Are there deadlines or tools that limit your options?''
          \<notin> set (recommendedPrompts blankState)
   \<and> length (trim (question blankState)) = 0
   \<and> length (trim (background blankState)) = 0
   \<and> length (trim (goal blankState)) = 0
   \<and> length (trim (constraints blankState)) = 0"
proof -
  have q: "question blankState \<noteq> [] \<and> list_all isWhiteSpace (question blankState)"
    by (simp add: blankState_def isWhiteSpace_def)
  have b: "background blankState \<noteq> [] \<and> list_all isWhiteSpace (background blankState)"
    by (simp add: blankState_def isWhiteSpace_def)
  have g: "goal blankState \<noteq> [] \<and> list_all isWhiteSpace (goal blankState)"
    by (simp add: blankState_def isWhiteSpace_def)
  have c: "constraints blankState \<noteq> [] \<and> list_all isWhiteSpace (constraints blankState)"
    by (simp add: blankState_def isWhiteSpace_def)
  from recommendedPrompts_truncated_rules [of blankState] q b g c show ?thesis
    by blast
qed

text \<open>
  C10. recommendedPrompts is empty exactly when question has raw length zero and
  background, goal and constraints all have raw length greater than zero; when question
  is not empty the list starts with the two question prompts, so it is not empty.
\<close>

theorem recommendedPrompts_empty_iff:
  "(recommendedPrompts s = []) =
     (length (question s) = 0 \<and> length (background s) > 0 \<and> length (goal s) > 0
      \<and> length (constraints s) > 0)
   \<and> (length (question s) > 0 \<longrightarrow>
        take 2 (recommendedPrompts s) =
          [ascii ''What would solving this unlock for you or your team?'',
           ascii ''Who needs to sign off once you have an answer?'']
        \<and> recommendedPrompts s \<noteq> [])"
proof -
  have e: "(recommendedPrompts s = []) = (promptRules s = [])"
    by (simp add: recommendedPrompts_rules)
  show ?thesis
    unfolding e promptRules_Nil
    by (auto simp: recommendedPrompts_rules promptRules_question)
qed

theorem recommendedPrompts_empty_iff_witness:
  "length (question questionOnly) > 0
   \<and> take 2 (recommendedPrompts questionOnly) =
          [ascii ''What would solving this unlock for you or your team?'',
           ascii ''Who needs to sign off once you have an answer?'']
   \<and> recommendedPrompts questionOnly \<noteq> []"
proof -
  have q: "length (question questionOnly) > 0"
    by (simp add: questionOnly_def ascii_def)
  from recommendedPrompts_empty_iff [of questionOnly] q show ?thesis
    by blast
qed

section \<open>The summary\<close>

lemma filterBoolean_lines:
  "filterBoolean [Some (brain @ a), Some (books @ b), Some (target @ c), Some (stopwatch @ d), k]
   = [brain @ a, books @ b, target @ c, stopwatch @ d]
     @ (case k of None \<Rightarrow> [] | Some l \<Rightarrow> if l = [] then [] else [l])"
  by (simp add: filterBoolean_def js_truthy_def brain_def books_def target_def stopwatch_def
      split: option.split)

lemma js_or_emDash: "js_or field emDash = fieldOrDash field"
  by (simp add: js_or_def fieldOrDash_def js_truthy_def)

lemma newline: "ascii [CHR 0x0A] = [0x0A]"
  by (simp add: ascii_def)

lemma formattedSummary_join: "formattedSummary s = js_join [0x0A] (summaryLines s)"
  by (simp add: formattedSummary_def summaryLines_def Let_def filterBoolean_lines
      js_or_emDash newline label_def)

text \<open>
  C4. The summary is the newline-join of the four field lines (Question, Background,
  Desired outcome, Constraints, each behind its emoji), a field of raw length zero shown
  as the em-dash, followed by the Keywords line only when there are keywords, which lists
  them in their stored order separated by comma and space. For question "X", the other
  fields empty and no keywords it is the four lines with three em-dashes and no keyword
  line; with the keywords frontend, product the last line reads "Keywords: frontend,
  product".
\<close>

theorem formattedSummary_lines:
  "formattedSummary s = js_join [0x0A] (summaryLines s)
   \<and> formattedSummary \<lparr> stage = st, question = ascii ''X'', background = [], goal = [],
         constraints = [], keywords = [], copied = c \<rparr>
       = brain @ ascii '' Question: X'' @ [0x0A]
         @ books @ ascii '' Background: '' @ emDash @ [0x0A]
         @ target @ ascii '' Desired outcome: '' @ emDash @ [0x0A]
         @ stopwatch @ ascii '' Constraints: '' @ emDash
   \<and> formattedSummary \<lparr> stage = st, question = ascii ''X'', background = [], goal = [],
         constraints = [], keywords = [ascii ''frontend'', ascii ''product''], copied = c \<rparr>
       = brain @ ascii '' Question: X'' @ [0x0A]
         @ books @ ascii '' Background: '' @ emDash @ [0x0A]
         @ target @ ascii '' Desired outcome: '' @ emDash @ [0x0A]
         @ stopwatch @ ascii '' Constraints: '' @ emDash @ [0x0A]
         @ label @ ascii '' Keywords: frontend, product''"
  by (simp add: formattedSummary_join summaryLines_def fieldOrDash_def ascii_def)

section \<open>Keywords\<close>

text \<open>
  C5. Toggling a keyword twice gives back the original membership of the keyword list
  and the original relative order of all the other members.
\<close>

theorem toggleKeyword_twice:
  "set (keywords (toggleKeyword k (toggleKeyword k s))) = set (keywords s)
   \<and> filter (\<lambda>item. item \<noteq> k) (keywords (toggleKeyword k (toggleKeyword k s)))
       = filter (\<lambda>item. item \<noteq> k) (keywords s)"
  by (auto simp: toggleKeyword_def Let_def)

lemma toggleKeyword_distinct:
  "distinct (keywords s) \<Longrightarrow> distinct (keywords (toggleKeyword k s))"
  by (simp add: toggleKeyword_def Let_def)

lemma fold_setCopied_keywords:
  "keywords (form (fold (\<lambda>d. setCopied v) ds r)) = keywords (form r)"
  by (induction ds arbitrary: r) (simp_all add: setCopied_def)

lemma elapse_keywords: "keywords (form (elapse dt r)) = keywords (form r)"
  by (simp add: elapse_def Let_def fold_setCopied_keywords)

lemma handleCopy_keywords:
  "handleCopy summary res r = Inr r' \<Longrightarrow> keywords (form r') = keywords (form r)"
  by (cases res)
     (auto simp: handleCopy_def writeText_def setTimeout_def setCopied_def consoleError_def)

lemma settleCopy_keywords: "keywords (form (settleCopy i res r)) = keywords (form r)"
  by (auto simp: settleCopy_def dest: handleCopy_keywords split: sum.splits)

lemma step_distinct:
  "distinct (keywords (form r)) \<Longrightarrow> distinct (keywords (form (step e r)))"
  by (cases e)
     (simp_all add: toggleKeyword_distinct elapse_keywords settleCopy_keywords requestCopy_def)

lemma reachable_run: "reachable r \<Longrightarrow> reachable (run es r)"
  unfolding run_def by (induction es arbitrary: r) (simp_all add: reachable.next_event)

text \<open>
  C6. In every state reachable from the initial one by the events of the component
  (field edits, step changes, keyword toggles, copy clicks, clipboard writes settling,
  timers firing) the keyword list has
  no duplicates; the toggle, the only event that changes the list, keeps a duplicate-free
  list duplicate-free.
\<close>

theorem keywords_distinct:
  "(reachable r \<longrightarrow> distinct (keywords (form r)))
   \<and> (distinct (keywords s) \<longrightarrow> distinct (keywords (toggleKeyword k s)))"
proof -
  have "distinct (keywords (form r))" if "reachable r"
    using that
  proof (induction rule: reachable.induct)
    case init
    show ?case by (simp add: initialRuntime_def initialState_def)
  next
    case (next_event r e)
    then show ?case by (simp add: step_distinct)
  qed
  then show ?thesis
    by (simp add: toggleKeyword_distinct)
qed

theorem keywords_distinct_witness:
  "reachable (run tagEvents initialRuntime)
   \<and> keywords (form (run tagEvents initialRuntime)) = [ascii ''product'']
   \<and> distinct (keywords (form (run tagEvents initialRuntime)))
   \<and> distinct (keywords taggedState)
   \<and> distinct (keywords (toggleKeyword (ascii ''backend'') taggedState))"
proof -
  have r: "reachable (run tagEvents initialRuntime)"
    by (rule reachable_run [OF reachable.init])
  have k: "keywords (form (run tagEvents initialRuntime)) = [ascii ''product'']"
    by (simp add: tagEvents_def run_def initialRuntime_def initialState_def toggleKeyword_def
        requestCopy_def settleCopy_keywords ascii_def)
  have d: "distinct (keywords taggedState)"
    by (simp add: taggedState_def ascii_def)
  from keywords_distinct [of "run tagEvents initialRuntime" taggedState "ascii ''backend''"] r k d
  show ?thesis by blast
qed

section \<open>The copy action\<close>

lemma handleCopy_Rejected:
  "handleCopy summary (Rejected error) r =
     Inr (r\<lparr> console := console r @ [(ascii ''Failed to copy summary'', error)] \<rparr>)"
  by (simp add: handleCopy_def writeText_def consoleError_def)

lemma handleCopy_Written:
  "handleCopy summary Written r =
     Inr (r\<lparr> clipboard := summary,
             form := (form r)\<lparr> copied := True \<rparr>,
             timers := timers r @ [now r + 2400] \<rparr>)"
  by (simp add: handleCopy_def writeText_def setTimeout_def setCopied_def)

lemma clipboard_text_from_click:
  "inFlight r = [] \<Longrightarrow>
   clipboard (run [CopyClick, SetQuestion v, CopySettle 0 Written] r) = formattedSummary (form r)"
  by (simp add: run_def requestCopy_def settleCopy_def handleCopy_Written)

text \<open>
  C7. When the clipboard write fails, the copy action returns normally (nothing is thrown
  past it), only appends the error to the console log and leaves the form, so the copied
  flag, and the timers as they were: a flag that was false stays false. Whatever the
  outcome the action returns normally, and copied goes from false to true only when the
  write succeeded, which always sets it. The same holds of the event of a write in flight
  settling as failed.
\<close>

theorem handleCopy_failure:
  "handleCopy summary (Rejected error) r =
     Inr (r\<lparr> console := console r @ [(ascii ''Failed to copy summary'', error)] \<rparr>)
   \<and> (\<exists>r'. handleCopy summary (Rejected error) r = Inr r' \<and> form r' = form r
         \<and> copied (form r') = copied (form r) \<and> timers r' = timers r
         \<and> clipboard r' = clipboard r)
   \<and> (\<not> copied (form r) \<longrightarrow>
        (\<exists>r'. handleCopy summary (Rejected error) r = Inr r' \<and> \<not> copied (form r')))
   \<and> (\<forall>res. \<exists>r'. handleCopy summary res r = Inr r')
   \<and> (\<forall>res r'. handleCopy summary res r = Inr r' \<and> \<not> copied (form r) \<and> copied (form r')
        \<longrightarrow> res = Written)
   \<and> (\<exists>r'. handleCopy summary Written r = Inr r' \<and> copied (form r'))
   \<and> form (settleCopy i (Rejected error) r) = form r
   \<and> timers (settleCopy i (Rejected error) r) = timers r
   \<and> clipboard (settleCopy i (Rejected error) r) = clipboard r"
proof -
  have t: "\<forall>res. \<exists>r'. handleCopy summary res r = Inr r'"
  proof
    fix res
    show "\<exists>r'. handleCopy summary res r = Inr r'"
      by (cases res) (simp_all add: handleCopy_Rejected handleCopy_Written)
  qed
  have o: "\<forall>res r'. handleCopy summary res r = Inr r' \<and> \<not> copied (form r) \<and> copied (form r')
        \<longrightarrow> res = Written"
  proof (intro allI impI)
    fix res r'
    assume a: "handleCopy summary res r = Inr r' \<and> \<not> copied (form r) \<and> copied (form r')"
    show "res = Written"
    proof (cases res)
      case Written
      then show ?thesis .
    next
      case (Rejected error)
      with a show ?thesis by (auto simp: handleCopy_Rejected)
    qed
  qed
  have e: "form (settleCopy i (Rejected error) r) = form r
     \<and> timers (settleCopy i (Rejected error) r) = timers r
     \<and> clipboard (settleCopy i (Rejected error) r) = clipboard r"
    by (simp add: settleCopy_def handleCopy_Rejected)
  from t o e show ?thesis
    by (simp add: handleCopy_Rejected handleCopy_Written)
qed

theorem handleCopy_failure_witness:
  "\<not> copied (form initialRuntime)
   \<and> (\<exists>r'. handleCopy (formattedSummary initialState) (Rejected copyDenied) initialRuntime
           = Inr r' \<and> \<not> copied (form r'))
   \<and> handleCopy (formattedSummary initialState) Written initialRuntime = Inr afterCopy
   \<and> copied (form afterCopy)"
proof -
  have n: "\<not> copied (form initialRuntime)"
    by (simp add: initialRuntime_def initialState_def)
  have w: "handleCopy (formattedSummary initialState) Written initialRuntime = Inr afterCopy"
    by (simp add: handleCopy_Written afterCopy_def initialRuntime_def)
  have c: "copied (form afterCopy)"
    by (simp add: afterCopy_def)
  from handleCopy_failure [of "formattedSummary initialState" copyDenied initialRuntime] n
  have "\<exists>r'. handleCopy (formattedSummary initialState) (Rejected copyDenied) initialRuntime
           = Inr r' \<and> \<not> copied (form r')"
    by blast
  with n w c show ?thesis by blast
qed

lemma fold_setCopied_False:
  "fold (\<lambda>d. setCopied False) ds r =
     (if ds = [] then r else r\<lparr> form := (form r)\<lparr> copied := False \<rparr> \<rparr>)"
  by (induction ds arbitrary: r) (simp_all add: setCopied_def)

lemma elapse_none_due:
  "\<forall>d\<in>set (timers r). now r + dt < d \<Longrightarrow>
   elapse dt r = r\<lparr> now := now r + dt \<rparr>"
proof -
  assume a: "\<forall>d\<in>set (timers r). now r + dt < d"
  then have "filter (\<lambda>d. d \<le> now r + dt) (timers r) = []"
    by (auto simp: filter_empty_conv)
  moreover from a have "filter (\<lambda>d. \<not> d \<le> now r + dt) (timers r) = timers r"
    by (auto simp: filter_id_conv)
  ultimately show ?thesis
    by (simp add: elapse_def Let_def)
qed

lemma elapse_some_due:
  "\<exists>d\<in>set (timers r). d \<le> now r + dt \<Longrightarrow> \<not> copied (form (elapse dt r))"
proof -
  assume "\<exists>d\<in>set (timers r). d \<le> now r + dt"
  then have "filter (\<lambda>d. d \<le> now r + dt) (timers r) \<noteq> []"
    by (auto simp: filter_empty_conv)
  then show ?thesis
    by (simp add: elapse_def Let_def fold_setCopied_False)
qed

lemma copied_after_copy:
  "handleCopy summary Written r = Inr r' \<Longrightarrow>
   copied (form (elapse dt r')) = (dt < 2400 \<and> (\<forall>d\<in>set (timers r). now r + dt < d))"
proof -
  assume "handleCopy summary Written r = Inr r'"
  then have r': "r' = r\<lparr> clipboard := summary, form := (form r)\<lparr> copied := True \<rparr>,
      timers := timers r @ [now r + 2400] \<rparr>"
    by (simp add: handleCopy_Written)
  show ?thesis
  proof (cases "dt < 2400 \<and> (\<forall>d\<in>set (timers r). now r + dt < d)")
    case True
    then have "\<forall>d\<in>set (timers r'). now r' + dt < d"
      by (auto simp: r')
    then have "elapse dt r' = r'\<lparr> now := now r' + dt \<rparr>"
      by (rule elapse_none_due)
    with True show ?thesis by (simp add: r')
  next
    case False
    then have "\<exists>d\<in>set (timers r'). d \<le> now r' + dt"
      by (auto simp: r' not_less)
    then have "\<not> copied (form (elapse dt r'))"
      by (rule elapse_some_due)
    with False show ?thesis by simp
  qed
qed

text \<open>
  C8, as the code has it. A successful copy sets copied and adds one reset timer due
  2400 ms later; the timers already pending stay, so several can be pending at once.
  While no pending timer has come due, copied and the timers are unchanged; as soon as
  one has come due, copied is false. So after a successful copy copied is true exactly
  as long as neither 2400 ms have passed nor a timer that was pending at the copy has come
  due: the full 2400 ms when none was pending, and less when an earlier one falls due
  before.
\<close>

theorem copy_reset_schedule:
  "(\<exists>r'. handleCopy summary Written r = Inr r' \<and> copied (form r')
      \<and> timers r' = timers r @ [now r + 2400] \<and> now r' = now r)
   \<and> ((\<forall>d\<in>set (timers r). now r + dt < d) \<longrightarrow>
        copied (form (elapse dt r)) = copied (form r) \<and> timers (elapse dt r) = timers r)
   \<and> ((\<exists>d\<in>set (timers r). d \<le> now r + dt) \<longrightarrow> \<not> copied (form (elapse dt r)))
   \<and> (handleCopy summary Written r = Inr r' \<longrightarrow>
        copied (form (elapse dt r'))
          = (dt < 2400 \<and> (\<forall>d\<in>set (timers r). now r + dt < d)))
   \<and> (timers r = [] \<and> handleCopy summary Written r = Inr r' \<longrightarrow>
        copied (form (elapse dt r')) = (dt < 2400))"
proof -
  have a: "\<exists>r'. handleCopy summary Written r = Inr r' \<and> copied (form r')
      \<and> timers r' = timers r @ [now r + 2400] \<and> now r' = now r"
    by (simp add: handleCopy_Written)
  have b: "(\<forall>d\<in>set (timers r). now r + dt < d) \<longrightarrow>
        copied (form (elapse dt r)) = copied (form r) \<and> timers (elapse dt r) = timers r"
    by (simp add: elapse_none_due)
  have c: "(\<exists>d\<in>set (timers r). d \<le> now r + dt) \<longrightarrow> \<not> copied (form (elapse dt r))"
    by (simp add: elapse_some_due)
  have d: "handleCopy summary Written r = Inr r' \<longrightarrow>
        copied (form (elapse dt r'))
          = (dt < 2400 \<and> (\<forall>d\<in>set (timers r). now r + dt < d))"
    using copied_after_copy [of summary r r' dt] by blast
  have e: "timers r = [] \<and> handleCopy summary Written r = Inr r' \<longrightarrow>
        copied (form (elapse dt r')) = (dt < 2400)"
    using copied_after_copy [of summary r r' dt] by auto
  from a b c d e show ?thesis by blast
qed

theorem copy_reset_schedule_witness:
  "timers afterCopy = [2400] \<and> now afterCopy = 0 \<and> copied (form afterCopy)
   \<and> copied (form (elapse 1000 afterCopy))
   \<and> timers (elapse 1000 afterCopy) = [2400]
   \<and> \<not> copied (form (elapse 2400 afterCopy))
   \<and> timers initialRuntime = []
   \<and> handleCopy (formattedSummary initialState) Written initialRuntime = Inr afterCopy
   \<and> copied (form (elapse 2399 afterCopy))
   \<and> timers secondClick = [2400] \<and> now secondClick = 1000
   \<and> handleCopy (formattedSummary initialState) Written secondClick = Inr afterSecondCopy
   \<and> copied (form (elapse 1399 afterSecondCopy))
   \<and> \<not> copied (form (elapse 1400 afterSecondCopy))"
proof -
  have t: "timers afterCopy = [2400]" and n: "now afterCopy = 0"
    and c: "copied (form afterCopy)"
    by (simp_all add: afterCopy_def initialRuntime_def)
  have h1: "\<forall>d\<in>set (timers afterCopy). now afterCopy + 1000 < d"
    by (simp add: t n)
  have h2: "\<exists>d\<in>set (timers afterCopy). d \<le> now afterCopy + 2400"
    by (simp add: t n)
  have h3: "timers initialRuntime = []"
    by (simp add: initialRuntime_def)
  have h4: "handleCopy (formattedSummary initialState) Written initialRuntime = Inr afterCopy"
    by (simp add: handleCopy_Written afterCopy_def initialRuntime_def)
  have t2: "timers secondClick = [2400]" and n2: "now secondClick = 1000"
    by (simp_all add: secondClick_def afterCopy_def initialRuntime_def)
  have h5: "handleCopy (formattedSummary initialState) Written secondClick = Inr afterSecondCopy"
    by (simp add: handleCopy_Written afterSecondCopy_def secondClick_def afterCopy_def
        initialRuntime_def)
  from copy_reset_schedule [where r = afterCopy and dt = 1000] h1 c t
  have a: "copied (form (elapse 1000 afterCopy)) \<and> timers (elapse 1000 afterCopy) = [2400]"
    by simp
  from copy_reset_schedule [where r = afterCopy and dt = 2400] h2
  have b: "\<not> copied (form (elapse 2400 afterCopy))"
    by blast
  from copy_reset_schedule [where r = initialRuntime and r' = afterCopy and dt = 2399
      and summary = "formattedSummary initialState"] h3 h4
  have d: "copied (form (elapse 2399 afterCopy))"
    by simp
  from copy_reset_schedule [where r = secondClick and r' = afterSecondCopy and dt = 1399
      and summary = "formattedSummary initialState"] h5
  have e: "copied (form (elapse 1399 afterSecondCopy))"
    by (simp add: t2 n2)
  from copy_reset_schedule [where r = secondClick and r' = afterSecondCopy and dt = 1400
      and summary = "formattedSummary initialState"] h5
  have f: "\<not> copied (form (elapse 1400 afterSecondCopy))"
    by (simp add: t2 n2)
  from t n c h3 h4 a b d t2 n2 h5 e f show ?thesis by blast
qed

text \<open>
  C8 as stated fails: after a copy at 0 ms and a second one at 1000 ms two reset timers
  are pending (due at 2400 and 3400), and at 2400 ms, 1400 ms after the latest copy,
  copied is already false.
\<close>

theorem copy_timers_stack_counterexample:
  "timers (run twoCopies initialRuntime) = [2400, 3400]
   \<and> \<not> length (timers (run twoCopies initialRuntime)) \<le> 1
   \<and> now (run (twoCopies @ [Elapse 1400]) initialRuntime) = 2400
   \<and> \<not> copied (form (run (twoCopies @ [Elapse 1400]) initialRuntime))"
  by (simp add: twoCopies_def run_def requestCopy_def settleCopy_def handleCopy_Written
      initialRuntime_def elapse_def fold_setCopied_False)

section \<open>The stage\<close>

text \<open>
  C9. Two form states that agree on everything but the stage have the same progress,
  insights, recommendedPrompts and summary.
\<close>

theorem derived_values_ignore_stage:
  assumes "question s = question t" and "background s = background t"
    and "goal s = goal t" and "constraints s = constraints t"
    and "keywords s = keywords t" and "copied s = copied t"
  shows "progress s = progress t \<and> insights s = insights t
    \<and> recommendedPrompts s = recommendedPrompts t
    \<and> formattedSummary s = formattedSummary t"
proof -
  have "progress s = progress t"
    unfolding progress_def by (simp only: assms)
  moreover have "insights s = insights t"
    unfolding insights_def by (simp only: assms)
  moreover have "recommendedPrompts s = recommendedPrompts t"
    unfolding recommendedPrompts_def by (simp only: assms)
  moreover have "formattedSummary s = formattedSummary t"
    unfolding formattedSummary_def by (simp only: assms)
  ultimately show ?thesis by blast
qed

theorem derived_values_ignore_stage_witness:
  "stage questionOnly \<noteq> stage (questionOnly \<lparr> stage := Constraints \<rparr>)
   \<and> progress questionOnly = progress (questionOnly \<lparr> stage := Constraints \<rparr>)
   \<and> insights questionOnly = insights (questionOnly \<lparr> stage := Constraints \<rparr>)
   \<and> recommendedPrompts questionOnly = recommendedPrompts (questionOnly \<lparr> stage := Constraints \<rparr>)
   \<and> formattedSummary questionOnly = formattedSummary (questionOnly \<lparr> stage := Constraints \<rparr>)"
proof -
  have s: "stage questionOnly \<noteq> stage (questionOnly \<lparr> stage := Constraints \<rparr>)"
    by (simp add: questionOnly_def)
  from derived_values_ignore_stage [of questionOnly "questionOnly \<lparr> stage := Constraints \<rparr>"] s
  show ?thesis by simp
qed

end
